theory Spec2Isabelle
  imports Main "HOL-Library.AList" "HOL-Library.Sublist"
begin

section \<open>The file system the plugin works on\<close>

text \<open>
  \<^verbatim>\<open>hooks.py\<close> talks to the file system through \<^verbatim>\<open>os.path.exists\<close>,
  \<^verbatim>\<open>os.path.dirname\<close>, \<^verbatim>\<open>os.path.join\<close>, \<^verbatim>\<open>shutil.rmtree\<close>,
  \<^verbatim>\<open>os.makedirs\<close> and \<^verbatim>\<open>os.symlink\<close>. The file system is a tree: a node is a
  regular file, a symbolic link holding its target, or a directory holding its entries.
  A path is the list of components of an absolute path (tox hands out absolute
  \<^verbatim>\<open>py.path.local\<close> paths, and \<^verbatim>\<open>sys.executable\<close> is absolute); the empty list is the
  root directory.

  Left out: permissions (every operation that is possible in the tree succeeds), the
  components \<^verbatim>\<open>.\<close> and \<^verbatim>\<open>..\<close>, and links with a relative target.
\<close>

type_synonym path = "string list"

datatype node = File | Symlink path | Dir "(string \<times> node) list"

definition os_path_dirname :: "path \<Rightarrow> path" where
  "os_path_dirname p = butlast p"

definition os_path_join :: "path \<Rightarrow> string \<Rightarrow> path" where
  "os_path_join p c = p @ [c]"

text \<open>
  The entry stored at a place of the tree. This reads the tree as it is and enters no
  link; the paths of the program go through \<open>walk\<close> below first.
\<close>

fun entry_at :: "node \<Rightarrow> path \<Rightarrow> node option" where
  "entry_at n [] = Some n"
| "entry_at (Dir es) (c # p) = (case map_of es c of None \<Rightarrow> None | Some n \<Rightarrow> entry_at n p)"
| "entry_at File (c # p) = None"
| "entry_at (Symlink t) (c # p) = None"

text \<open>
  Path resolution as the kernel does it. \<open>walk k fs cur p follow\<close> goes from the
  directory at the place \<open>cur\<close> along the components \<open>p\<close>. A link met on the way is
  entered: the walk starts again at the root with the target of the link, followed by the
  components still to go. A link in the last position is entered only when \<open>follow\<close> is
  set (\<^verbatim>\<open>stat\<close>) and is itself the result otherwise (\<^verbatim>\<open>lstat\<close>). \<open>k\<close> counts the links
  that may still be entered; when it runs out the walk fails (\<^verbatim>\<open>ELOOP\<close>). A missing
  entry and a regular file in a middle position fail the walk too. The result is the
  place reached, and the number of links left.
\<close>

function walk :: "nat \<Rightarrow> node \<Rightarrow> path \<Rightarrow> path \<Rightarrow> bool \<Rightarrow> (nat \<times> path) option" where
  "walk k fs cur [] follow = Some (k, cur)"
| "walk k fs cur (c # rest) follow =
     (case entry_at fs (cur @ [c]) of
        None \<Rightarrow> None
      | Some (Dir es) \<Rightarrow> walk k fs (cur @ [c]) rest follow
      | Some File \<Rightarrow> if rest = [] then Some (k, cur @ [c]) else None
      | Some (Symlink t) \<Rightarrow>
          if rest = [] \<and> \<not> follow then Some (k, cur @ [c])
          else (case k of
                  0 \<Rightarrow> None
                | Suc k' \<Rightarrow> walk k' fs [] (t @ rest) follow))"
  by pat_completeness auto
termination
  by (relation "measures [\<lambda>(k, fs, cur, p, follow). k, \<lambda>(k, fs, cur, p, follow). length p]") auto

definition MAXSYMLINKS :: nat where
  "MAXSYMLINKS = 40"

text \<open>The place a path leads to, with and without entering a link in the last position.\<close>

definition resolve :: "node \<Rightarrow> path \<Rightarrow> path option" where
  "resolve fs p = map_option snd (walk MAXSYMLINKS fs [] p True)"

definition lresolve :: "node \<Rightarrow> path \<Rightarrow> path option" where
  "lresolve fs p = map_option snd (walk MAXSYMLINKS fs [] p False)"



text \<open>\<^verbatim>\<open>os.path.exists\<close>: true when \<^verbatim>\<open>stat\<close> succeeds, false for a broken link.\<close>

definition os_path_exists :: "node \<Rightarrow> path \<Rightarrow> bool" where
  "os_path_exists fs p = (resolve fs p \<noteq> None)"



text \<open>Putting and removing the entry at a place whose parent is a directory.\<close>

fun add_entry :: "path \<Rightarrow> node \<Rightarrow> node \<Rightarrow> node" where
  "add_entry [] new n = n"
| "add_entry [c] new (Dir es) = Dir (AList.update c new es)"
| "add_entry (c # p) new (Dir es) =
     (case map_of es c of
        None \<Rightarrow> Dir es
      | Some n \<Rightarrow> Dir (AList.update c (add_entry p new n) es))"
| "add_entry (c # p) new n = n"

fun remove_entry :: "path \<Rightarrow> node \<Rightarrow> node" where
  "remove_entry [] n = (case n of Dir es \<Rightarrow> Dir [] | _ \<Rightarrow> n)"
| "remove_entry [c] (Dir es) = Dir (AList.delete c es)"
| "remove_entry (c # p) (Dir es) =
     (case map_of es c of
        None \<Rightarrow> Dir es
      | Some n \<Rightarrow> Dir (AList.update c (remove_entry p n) es))"
| "remove_entry (c # p) n = n"

text \<open>
  The errors of \<^verbatim>\<open>mkdir\<close> and \<^verbatim>\<open>symlink\<close>: \<open>FileExistsError\<close>, which \<^verbatim>\<open>makedirs\<close> tells
  apart, and \<open>ParentError\<close> for the path of the parent not leading to a directory
  (\<^verbatim>\<open>FileNotFoundError\<close>, \<^verbatim>\<open>NotADirectoryError\<close> or \<^verbatim>\<open>ELOOP\<close>, which the program does not
  tell apart).
\<close>

datatype os_error = FileExistsError | ParentError

text \<open>
  \<^verbatim>\<open>shutil.rmtree(path, ignore_errors=True)\<close>: a directory goes with everything below
  it. The links above it are entered; a link in the last position is not:
  \<^verbatim>\<open>rmtree\<close> refuses a symbolic link. That failure, like the one for a missing path or a
  regular file, is ignored and nothing is removed. The root directory itself cannot be
  unlinked, only emptied.
\<close>

definition shutil_rmtree_ignore_errors :: "path \<Rightarrow> node \<Rightarrow> node" where
  "shutil_rmtree_ignore_errors p fs =
     (case lresolve fs p of
        None \<Rightarrow> fs
      | Some q \<Rightarrow>
          (case entry_at fs q of
             Some (Dir es) \<Rightarrow> remove_entry q fs
           | _ \<Rightarrow> fs))"

text \<open>
  \<^verbatim>\<open>os.mkdir\<close> and \<^verbatim>\<open>os.symlink\<close> both create one new entry in the directory the parent
  path leads to. An entry that is already there, a dangling link included, is
  \<open>FileExistsError\<close>.
\<close>

definition create_entry :: "path \<Rightarrow> node \<Rightarrow> node \<Rightarrow> os_error + node" where
  "create_entry p new fs =
     (if p = [] then Inl FileExistsError
      else case resolve fs (butlast p) of
             None \<Rightarrow> Inl ParentError
           | Some d \<Rightarrow>
               (case entry_at fs d of
                  Some (Dir es) \<Rightarrow>
                    if entry_at fs (d @ [last p]) \<noteq> None then Inl FileExistsError
                    else Inr (add_entry (d @ [last p]) new fs)
                | _ \<Rightarrow> Inl ParentError))"

definition os_mkdir :: "path \<Rightarrow> node \<Rightarrow> os_error + node" where
  "os_mkdir p fs = create_entry p (Dir []) fs"

definition os_symlink :: "path \<Rightarrow> path \<Rightarrow> node \<Rightarrow> os_error + node" where
  "os_symlink target link fs = create_entry link (Symlink target) fs"

text \<open>
  \<^verbatim>\<open>os.makedirs(name)\<close> with \<^verbatim>\<open>exist_ok=False\<close>: when the parent does not exist it is
  made first, a \<^verbatim>\<open>FileExistsError\<close> of that recursive call is passed over, and then the
  leaf is made with \<^verbatim>\<open>mkdir\<close>, whose errors are raised.
\<close>

function os_makedirs :: "path \<Rightarrow> node \<Rightarrow> os_error + node" where
  "os_makedirs p fs =
     (if p \<noteq> [] \<and> \<not> os_path_exists fs (butlast p) then
        (case os_makedirs (butlast p) fs of
           Inl FileExistsError \<Rightarrow> os_mkdir p fs
         | Inl e \<Rightarrow> Inl e
         | Inr fs' \<Rightarrow> os_mkdir p fs')
      else os_mkdir p fs)"
  by pat_completeness auto
termination
  by (relation "measure (\<lambda>(p, fs). length p)") auto

declare os_makedirs.simps [simp del]

section \<open>What the host (tox and the interpreter) provides\<close>

text \<open>
  \<^verbatim>\<open>sys.version_info\<close> and \<^verbatim>\<open>python_info.version_info\<close> are five-field tuples;
  the slice \<^verbatim>\<open>[:2]\<close> keeps major and minor.
\<close>

record version_info =
  major :: nat
  minor :: nat
  micro :: nat
  releaselevel :: string
  serial :: nat

definition slice2 :: "version_info \<Rightarrow> nat \<times> nat" where
  "slice2 v = (major v, minor v)"

text \<open>
  The sink of \<^verbatim>\<open>--print-deps-to\<close>: \<^verbatim>\<open>argparse.FileType('w')\<close> yields an open file, or
  \<^verbatim>\<open>sys.stdout\<close> for \<^verbatim>\<open>-\<close>. File objects are truthy, so \<^verbatim>\<open>config.option.print_deps_to\<close>
  is false exactly when it is \<^verbatim>\<open>None\<close>.
\<close>

datatype sink = Stdout | OpenFile string

record config_option =
  current_env :: bool
  print_deps_only :: bool
  print_deps_to :: "sink option"
  recreate :: bool

record testenv_config =
  envpython :: path
  python_info_version_info :: "version_info option"
  basepython :: string
  whitelist_externals :: string

record config =
  option :: config_option
  skipsdist :: bool
  envconfigs :: "(string \<times> testenv_config) list"

record venv =
  envconfig :: testenv_config
  resolved_dependencies :: "string list"

datatype config_reason =
    PrintDepsOnlyWithPrintDepsTo
  | CleanupDidNotFinish
  | RegularAfterCurrentEnv
  | CurrentEnvAfterRegular

text \<open>
  The exceptions the plugin raises or lets through. \<open>ConfigError\<close> carries which of the
  four messages of the source it was raised with; \<open>InterpreterMismatch\<close> (a subclass of
  \<open>InterpreterNotFound\<close> in the source) carries \<^verbatim>\<open>tuple(sys.version_info)\<close> and the requested
  \<^verbatim>\<open>version_info\<close>, the two values its message is formatted from.
\<close>

datatype error =
    ConfigError config_reason
  | InterpreterNotFound string
  | InterpreterMismatch version_info version_info
  | OSError os_error
  | CalledProcessError

text \<open>
  The running interpreter and tox itself: \<^verbatim>\<open>sys.executable\<close>, \<^verbatim>\<open>sys.version_info\<close>,
  \<^verbatim>\<open>sys.platform\<close>, whether \<^verbatim>\<open>tox.hookspecs\<close> has \<^verbatim>\<open>tox_cleanup\<close>, and what the shell command
  \<^verbatim>\<open>mklink /J "link" "target"\<close> does to the file system on Windows (given link and target).
\<close>

record host =
  sys_executable :: path
  sys_version_info :: version_info
  sys_platform :: string
  hookspecs_has_tox_cleanup :: bool
  mklink_J :: "path \<Rightarrow> path \<Rightarrow> node \<Rightarrow> error + node"

text \<open>
  The state the hooks act on: the file system, and what has been written to which sink,
  oldest first.
\<close>

record world =
  fs :: node
  written :: "(sink \<times> string) list"

text \<open>A hook returns \<^verbatim>\<open>True\<close> (handled, tox skips its own implementation) or \<^verbatim>\<open>None\<close>.\<close>

datatype hook_result = Handled | NotHandled

section \<open>The plugin\<close>

text \<open>\<^verbatim>\<open>venv.envconfig.get_envpython()\<close>\<close>

definition get_envpython :: "venv \<Rightarrow> path" where
  "get_envpython v = envpython (envconfig v)"

text \<open>\<^verbatim>\<open>tox_configure\<close>; the first component says whether the deprecation warning was issued.\<close>

definition tox_configure :: "config \<Rightarrow> bool \<times> (error + config)" where
  "tox_configure c =
     (let warned = print_deps_only (option c);
          r1 = (if print_deps_only (option c) then
                  (if print_deps_to (option c) = None
                   then Inr (c\<lparr>option := (option c)\<lparr>print_deps_to := Some Stdout\<rparr>\<rparr>)
                   else Inl (ConfigError PrintDepsOnlyWithPrintDepsTo))
                else Inr c)
      in (warned,
          case r1 of
            Inl e \<Rightarrow> Inl e
          | Inr c1 \<Rightarrow>
              if current_env (option c1) \<or> print_deps_to (option c1) \<noteq> None then
                Inr (c1\<lparr>skipsdist := True,
                        envconfigs := map (\<lambda>(name, ec). (name, ec\<lparr>whitelist_externals := ''*''\<rparr>))
                                          (envconfigs c1)\<rparr>)
              else Inr c1))"

definition python_activate_exists :: "venv \<Rightarrow> node \<Rightarrow> bool \<times> bool" where
  "python_activate_exists v f =
     (let python = get_envpython v;
          bindir = os_path_dirname python;
          activate = os_path_join bindir ''activate''
      in (os_path_exists f python, os_path_exists f activate))"

definition is_current_env_link :: "venv \<Rightarrow> node \<Rightarrow> bool" where
  "is_current_env_link v f =
     (case python_activate_exists v f of (python, activate) \<Rightarrow> python \<and> \<not> activate)"

definition is_proper_venv :: "venv \<Rightarrow> node \<Rightarrow> bool" where
  "is_proper_venv v f =
     (case python_activate_exists v f of (python, activate) \<Rightarrow> python \<and> activate)"

definition is_any_env :: "venv \<Rightarrow> node \<Rightarrow> bool" where
  "is_any_env v f =
     (case python_activate_exists v f of (python, activate) \<Rightarrow> python)"

definition rm_venv :: "venv \<Rightarrow> node \<Rightarrow> node" where
  "rm_venv v f =
     (let link = get_envpython v
      in shutil_rmtree_ignore_errors (os_path_dirname (os_path_dirname link)) f)"

definition unsupported_raise :: "host \<Rightarrow> config \<Rightarrow> venv \<Rightarrow> node \<Rightarrow> error + unit" where
  "unsupported_raise h c v f =
     (if recreate (option c) then Inr ()
      else
        let regular = \<not> (current_env (option c) \<or> print_deps_to (option c) \<noteq> None) in
        if regular \<and> is_current_env_link v f then
          (if hookspecs_has_tox_cleanup h
           then Inl (ConfigError CleanupDidNotFinish)
           else Inl (ConfigError RegularAfterCurrentEnv))
        else if current_env (option c) \<and> is_proper_venv v f then
          Inl (ConfigError CurrentEnvAfterRegular)
        else Inr ())"

text \<open>
  Lines 145 to 158 of \<^verbatim>\<open>tox_testenv_create\<close>, the branch \<^verbatim>\<open>if create_fake_env:\<close>: remove
  the environment, make the directory of the link, link to \<^verbatim>\<open>sys.executable\<close> (through
  \<^verbatim>\<open>mklink /J\<close> on Windows), return \<^verbatim>\<open>True\<close>. An exception leaves behind what was done
  before it.
\<close>

definition make_fake_env :: "host \<Rightarrow> venv \<Rightarrow> world \<Rightarrow> (error + hook_result) \<times> world" where
  "make_fake_env h v w =
     (let link = get_envpython v;
          target = sys_executable h;
          f1 = rm_venv v (fs w)
      in case os_makedirs (os_path_dirname link) f1 of
           Inl e \<Rightarrow> (Inl (OSError e), w\<lparr>fs := f1\<rparr>)
         | Inr f2 \<Rightarrow>
             if sys_platform h = ''win32'' then
               (case mklink_J h link target f2 of
                  Inl e \<Rightarrow> (Inl e, w\<lparr>fs := f2\<rparr>)
                | Inr f3 \<Rightarrow> (Inr Handled, w\<lparr>fs := f3\<rparr>))
             else
               (case os_symlink target link f2 of
                  Inl e \<Rightarrow> (Inl (OSError e), w\<lparr>fs := f2\<rparr>)
                | Inr f3 \<Rightarrow> (Inr Handled, w\<lparr>fs := f3\<rparr>)))"

definition tox_testenv_create :: "host \<Rightarrow> config \<Rightarrow> venv \<Rightarrow> world \<Rightarrow> (error + hook_result) \<times> world" where
  "tox_testenv_create h c v w =
     (let check_version = current_env (option c) in
      if print_deps_to (option c) \<noteq> None \<and> is_any_env v (fs w) then (Inr Handled, w)
      else
        let create_fake_env = (if print_deps_to (option c) \<noteq> None then True else current_env (option c));
            checked =
              (if check_version then
                 (case python_info_version_info (envconfig v) of
                    None \<Rightarrow> Inl (InterpreterNotFound (basepython (envconfig v)))
                  | Some version_info \<Rightarrow>
                      if slice2 version_info \<noteq> slice2 (sys_version_info h)
                      then Inl (InterpreterMismatch (sys_version_info h) version_info)
                      else Inr ())
               else Inr ())
        in case checked of
             Inl e \<Rightarrow> (Inl e, w)
           | Inr _ \<Rightarrow>
               if create_fake_env then make_fake_env h v w
               else
                 (Inr NotHandled,
                  if \<not> is_proper_venv v (fs w) then w\<lparr>fs := rm_venv v (fs w)\<rparr> else w))"

definition tox_package :: "host \<Rightarrow> config \<Rightarrow> venv \<Rightarrow> world \<Rightarrow> (error + hook_result) \<times> world" where
  "tox_package h c v w =
     (case unsupported_raise h c v (fs w) of
        Inl e \<Rightarrow> (Inl e, w)
      | Inr _ \<Rightarrow> (Inr NotHandled, w))"

definition tox_testenv_install_deps :: "host \<Rightarrow> config \<Rightarrow> venv \<Rightarrow> world \<Rightarrow> (error + hook_result) \<times> world" where
  "tox_testenv_install_deps h c v w =
     (case unsupported_raise h c v (fs w) of
        Inl e \<Rightarrow> (Inl e, w)
      | Inr _ \<Rightarrow>
          if current_env (option c) \<or> print_deps_to (option c) \<noteq> None
          then (Inr Handled, w)
          else (Inr NotHandled, w))"

text \<open>
  \<^verbatim>\<open>print(*args, sep="\n", file=f)\<close> writes the arguments separated by \<^verbatim>\<open>sep\<close> and then
  the default \<^verbatim>\<open>end\<close>, a newline.
\<close>

fun join_sep :: "string \<Rightarrow> string list \<Rightarrow> string" where
  "join_sep sep [] = []"
| "join_sep sep [x] = x"
| "join_sep sep (x # y # ys) = x @ sep @ join_sep sep (y # ys)"

definition print_sep_newline :: "string list \<Rightarrow> sink \<Rightarrow> world \<Rightarrow> world" where
  "print_sep_newline args f w =
     w\<lparr>written := written w @ [(f, join_sep [CHR 0x0A] args @ [CHR 0x0A])]\<rparr>"

definition tox_runtest :: "host \<Rightarrow> config \<Rightarrow> venv \<Rightarrow> world \<Rightarrow> (error + hook_result) \<times> world" where
  "tox_runtest h c v w =
     (case unsupported_raise h c v (fs w) of
        Inl e \<Rightarrow> (Inl e, w)
      | Inr _ \<Rightarrow>
          (case print_deps_to (option c) of
             Some f \<Rightarrow> (Inr Handled, print_sep_newline (resolved_dependencies v) f w)
           | None \<Rightarrow> (Inr NotHandled, w)))"

text \<open>\<^verbatim>\<open>tox_cleanup\<close>: the loop over \<^verbatim>\<open>session.venv_dict.values()\<close>.\<close>

fun tox_cleanup :: "venv list \<Rightarrow> node \<Rightarrow> node" where
  "tox_cleanup [] f = f"
| "tox_cleanup (v # vs) f =
     tox_cleanup vs (if is_current_env_link v f then rm_venv v f else f)"

section \<open>The specification's view of a target environment\<close>

text \<open>
  The two paths the plugin looks at: the interpreter path \<open>get_envpython\<close> and the
  file \<^verbatim>\<open>activate\<close> beside it (lines 72 to 74 of the source), and the directory
  \<^verbatim>\<open>rm_venv\<close> removes (line 95).
\<close>

definition activate_path :: "venv \<Rightarrow> path" where
  "activate_path v = os_path_join (os_path_dirname (get_envpython v)) ''activate''"


text \<open>
  The shape of an environment in the words of the specification: \<open>Absent\<close> when no
  interpreter path exists, \<open>Redirect\<close> when the interpreter path exists and the activation
  artifact beside it does not, \<open>Materialized\<close> when both exist. The source has no such
  type; it has the three predicates \<open>is_any_env\<close>, \<open>is_current_env_link\<close> and
  \<open>is_proper_venv\<close>, which the theorems below compare with it.
\<close>

datatype EnvironmentShape = Absent | Redirect | Materialized

definition spec_inspect :: "venv \<Rightarrow> node \<Rightarrow> EnvironmentShape" where
  "spec_inspect v f =
     (if \<not> os_path_exists f (get_envpython v) then Absent
      else if \<not> os_path_exists f (activate_path v) then Redirect
      else Materialized)"

text \<open>
  Two nodes are of the same kind when both are directories, both are regular files, or
  both are links to the same target.
\<close>

fun same_kind :: "node \<Rightarrow> node \<Rightarrow> bool" where
  "same_kind (Dir es) (Dir es') = True"
| "same_kind File File = True"
| "same_kind (Symlink t) (Symlink t') = (t = t')"
| "same_kind x y = False"

text \<open>
  One tree lies within another when every entry of the first is at the same place in the
  second, and of the same kind.
\<close>

abbreviation sub_tree :: "node \<Rightarrow> node \<Rightarrow> bool" where
  "sub_tree f g \<equiv> \<forall>q x. entry_at f q = Some x \<longrightarrow> (\<exists>y. entry_at g q = Some y \<and> same_kind x y)"

section \<open>A sample project\<close>

text \<open>
  Concrete values on which the theorems below are run: a host whose interpreter
  \<^verbatim>\<open>/usr/bin/python3\<close> is Python 3.9 on Linux, a project \<^verbatim>\<open>/proj\<close> whose environments
  live in \<^verbatim>\<open>/proj/.tox/<name>\<close>, and the two kinds of environment directory: one holding
  only the link \<^verbatim>\<open>bin/python\<close>, one holding an interpreter and \<^verbatim>\<open>bin/activate\<close>.
\<close>

definition v39 :: version_info where
  "v39 = \<lparr>major = 3, minor = 9, micro = 7, releaselevel = ''final'', serial = 0\<rparr>"

definition v311 :: version_info where
  "v311 = \<lparr>major = 3, minor = 11, micro = 2, releaselevel = ''final'', serial = 0\<rparr>"

definition host_ex :: host where
  "host_ex = \<lparr>sys_executable = [''usr'', ''bin'', ''python3''], sys_version_info = v39,
              sys_platform = ''linux'', hookspecs_has_tox_cleanup = True,
              mklink_J = (\<lambda>link target f. Inl CalledProcessError)\<rparr>"

text \<open>
  The same interpreter on a Windows host. A junction leads to its target as a directory,
  written here as the path of the target with an empty last component (a trailing
  separator): on this host \<^verbatim>\<open>mklink /J\<close> leaves such an entry at the link, and a junction to a
  regular file leads nowhere.
\<close>

definition host_win :: host where
  "host_win = \<lparr>sys_executable = [''usr'', ''bin'', ''python3''], sys_version_info = v39,
               sys_platform = ''win32'', hookspecs_has_tox_cleanup = True,
               mklink_J = (\<lambda>link target f.
                 case create_entry link (Symlink (target @ [''''])) f of
                   Inl e \<Rightarrow> Inl CalledProcessError
                 | Inr f' \<Rightarrow> Inr f')\<rparr>"

definition venv_at :: "path \<Rightarrow> version_info \<Rightarrow> venv" where
  "venv_at python ver =
     \<lparr>envconfig = \<lparr>envpython = python,
                    python_info_version_info = Some ver,
                    basepython = ''python3'',
                    whitelist_externals = []\<rparr>,
      resolved_dependencies = [''pytest'', ''six>=1.0'']\<rparr>"

definition venv_ex :: "string \<Rightarrow> version_info \<Rightarrow> venv" where
  "venv_ex name ver = venv_at [''proj'', ''.tox'', name, ''bin'', ''python''] ver"

definition config_ex :: "bool \<Rightarrow> sink option \<Rightarrow> bool \<Rightarrow> config" where
  "config_ex ce pd rc =
     \<lparr>option = \<lparr>current_env = ce, print_deps_only = False, print_deps_to = pd, recreate = rc\<rparr>,
      skipsdist = False,
      envconfigs = []\<rparr>"

definition usr_tree :: "string \<times> node" where
  "usr_tree = (''usr'', Dir [(''bin'', Dir [(''python3'', File)])])"

definition redirect_env :: "string \<Rightarrow> string \<times> node" where
  "redirect_env name = (name, Dir [(''bin'', Dir [(''python'', Symlink [''usr'', ''bin'', ''python3''])])])"

definition materialized_env :: "string \<Rightarrow> string \<times> node" where
  "materialized_env name = (name, Dir [(''bin'', Dir [(''python'', File), (''activate'', File)])])"

definition fs_ex :: "(string \<times> node) list \<Rightarrow> node" where
  "fs_ex envs = Dir [usr_tree, (''proj'', Dir [(''.tox'', Dir envs)])]"

text \<open>
  The same project with the environment directory \<^verbatim>\<open>/proj/.tox/py39\<close> a symbolic link to
  \<^verbatim>\<open>/store/py39\<close>, and what lies in \<^verbatim>\<open>/store\<close>.
\<close>

definition fs_linked :: "(string \<times> node) list \<Rightarrow> node" where
  "fs_linked store =
     Dir [usr_tree,
          (''proj'', Dir [(''.tox'', Dir [(''py39'', Symlink [''store'', ''py39''])])]),
          (''store'', Dir store)]"

text \<open>
  A target whose environment directory is \<^verbatim>\<open>/proj/.tox\<close> itself, so that the directory of
  every other target lies inside it.
\<close>

definition venv_outer :: venv where
  "venv_outer = venv_at [''proj'', ''.tox'', ''bin'', ''python''] v39"

definition fs_nested :: node where
  "fs_nested =
     fs_ex [(''bin'', Dir [(''python'', Symlink [''usr'', ''bin'', ''python3''])]),
            materialized_env ''py311'']"

section \<open>Facts about the tree\<close>

lemma same_kind_refl [simp]: "same_kind x x"
  by (cases x) simp_all


lemma same_kind_File [simp]: "same_kind File y = (y = File)" "same_kind y File = (y = File)"
  by (cases y; simp)+

lemma same_kind_Symlink [simp]:
  "same_kind (Symlink t) y = (y = Symlink t)" "same_kind y (Symlink t) = (y = Symlink t)"
  by (cases y; auto)+

lemma same_kind_Dir [simp]:
  "same_kind (Dir es) y = (\<exists>es'. y = Dir es')" "same_kind y (Dir es) = (\<exists>es'. y = Dir es')"
  by (cases y; simp)+

lemma entry_at_append:
  "entry_at n (p @ q) = (case entry_at n p of None \<Rightarrow> None | Some m \<Rightarrow> entry_at m q)"
proof (induction p arbitrary: n)
  case Nil
  show ?case by simp
next
  case (Cons c p)
  show ?case by (cases n) (simp_all add: Cons.IH split: option.splits)
qed





lemma entry_at_remove_entry_back:
  "entry_at (remove_entry p n) q = Some y \<Longrightarrow> \<exists>x. entry_at n q = Some x \<and> same_kind x y"
proof (induction p n arbitrary: q rule: remove_entry.induct)
  case (1 n)
  then show ?case by (cases n; cases q) auto
next
  case (2 c es)
  then show ?case by (cases q) (auto simp add: delete_conv' split: if_splits)
next
  case (3 c v va es)
  then show ?case by (cases q) (auto simp add: update_conv' split: option.splits if_splits)
qed auto


lemma entry_at_add_entry_other:
  "\<not> prefix p q \<Longrightarrow> \<not> prefix q p \<Longrightarrow> entry_at (add_entry p new n) q = entry_at n q"
proof (induction p new n arbitrary: q rule: add_entry.induct)
  case (2 c new es)
  then show ?case by (cases q) (auto simp add: update_conv')
next
  case (3 c v va new es)
  then show ?case by (cases q) (auto simp add: update_conv' split: option.splits)
qed simp_all




lemma entry_at_add_entry_back:
  "entry_at (add_entry p new f) q = Some y \<Longrightarrow>
   prefix p q \<or> (\<exists>x. entry_at f q = Some x \<and> same_kind x y)"
proof (induction p new f arbitrary: q rule: add_entry.induct)
  case (2 c new es)
  then show ?case by (cases q) (auto simp add: update_conv' split: if_splits)
next
  case (3 c v va new es)
  then show ?case by (cases q) (auto simp add: update_conv' split: option.splits if_splits)
qed auto



lemma same_kind_sym: "same_kind x y \<Longrightarrow> same_kind y x"
  by (cases x; cases y) simp_all

lemma sub_tree_remove: "sub_tree (remove_entry p f) f"
  by (meson entry_at_remove_entry_back same_kind_sym)


section \<open>Facts about path resolution\<close>

lemma walk_append_aux:
  "fl \<Longrightarrow> r \<noteq> [] \<Longrightarrow>
   walk k f cur (p @ r) follow =
     (case walk k f cur p fl of None \<Rightarrow> None | Some (k', d) \<Rightarrow> walk k' f d r follow)"
proof (induction k f cur p fl arbitrary: r rule: walk.induct)
  case (1 k f cur fl)
  show ?case by simp
next
  case (2 k f cur c rest fl)
  show ?case
  proof (cases "entry_at f (cur @ [c])")
    case None
    then show ?thesis by simp
  next
    case (Some n)
    show ?thesis
    proof (cases n)
      case File
      with Some "2.prems" show ?thesis
        by (cases r) (simp_all add: entry_at_append)
    next
      case (Dir es)
      from "2.IH"(2) [OF Some Dir "2.prems"] Some Dir show ?thesis by simp
    next
      case (Symlink t)
      show ?thesis
      proof (cases k)
        case 0
        with Some Symlink "2.prems" show ?thesis by simp
      next
        case (Suc k')
        from "2.prems"(1) have "\<not> (rest = [] \<and> \<not> fl)" by simp
        from "2.IH"(1) [OF Some Symlink this Suc "2.prems"] Some Symlink Suc "2.prems"
        show ?thesis by simp
      qed
    qed
  qed
qed

lemma walk_append:
  "r \<noteq> [] \<Longrightarrow>
   walk k f cur (p @ r) follow =
     (case walk k f cur p True of None \<Rightarrow> None | Some (k', d) \<Rightarrow> walk k' f d r follow)"
  by (rule walk_append_aux) simp_all

lemma walk_sub:
  "sub_tree f g \<Longrightarrow> walk k f cur p follow = Some r \<Longrightarrow> walk k g cur p follow = Some r"
proof (induction k f cur p follow rule: walk.induct)
  case (1 k f cur follow)
  then show ?case by simp
next
  case (2 k f cur c rest follow)
  from "2.prems"(2) obtain n where n: "entry_at f (cur @ [c]) = Some n"
    by (cases "entry_at f (cur @ [c])") auto
  with "2.prems"(1) obtain m where m: "entry_at g (cur @ [c]) = Some m" "same_kind n m"
    by blast
  show ?case
  proof (cases n)
    case File
    with n m "2.prems" show ?thesis by (simp split: if_splits)
  next
    case (Dir es)
    with m obtain es' where m': "m = Dir es'" by auto
    from "2.prems"(2) n Dir have "walk k f (cur @ [c]) rest follow = Some r" by simp
    from "2.IH"(2) [OF n Dir "2.prems"(1) this] m m' show ?thesis by simp
  next
    case (Symlink t)
    with m have m': "m = Symlink t" by simp
    show ?thesis
    proof (cases "rest = [] \<and> \<not> follow")
      case True
      with "2.prems"(2) n Symlink m m' show ?thesis by simp
    next
      case False
      with "2.prems"(2) n Symlink obtain k' where k': "k = Suc k'"
        and w: "walk k' f [] (t @ rest) follow = Some r"
        by (cases k) auto
      from "2.IH"(1) [OF n Symlink False k' "2.prems"(1) w] False m m' k'
      show ?thesis by auto
    qed
  qed
qed


lemma walk_follow_entry_aux:
  "walk k f cur p fl = Some (k', r) \<Longrightarrow> fl \<Longrightarrow>
   (entry_at f cur = Some File \<or> (\<exists>es. entry_at f cur = Some (Dir es))) \<Longrightarrow>
   entry_at f r = Some File \<or> (\<exists>es. entry_at f r = Some (Dir es))"
proof (induction k f cur p fl rule: walk.induct)
  case (1 k f cur fl)
  then show ?case by simp
next
  case (2 k f cur c rest fl)
  from "2.prems"(1) obtain n where n: "entry_at f (cur @ [c]) = Some n"
    by (cases "entry_at f (cur @ [c])") auto
  show ?case
  proof (cases n)
    case File
    with n "2.prems" show ?thesis by (auto split: if_splits)
  next
    case (Dir es)
    from "2.prems"(1) n Dir have "walk k f (cur @ [c]) rest fl = Some (k', r)" by simp
    from "2.IH"(2) [OF n Dir this "2.prems"(2)] n Dir show ?thesis by simp
  next
    case (Symlink t)
    from "2.prems"(2) have nf: "\<not> (rest = [] \<and> \<not> fl)" by simp
    with "2.prems"(1) n Symlink obtain k0 where k0: "k = Suc k0"
      and w: "walk k0 f [] (t @ rest) fl = Some (k', r)"
      by (cases k) auto
    have "entry_at f [] = Some File \<or> (\<exists>es. entry_at f [] = Some (Dir es))"
      using n by (cases f; cases cur) auto
    from "2.IH"(1) [OF n Symlink nf k0 w "2.prems"(2) this] show ?thesis .
  qed
qed






lemma exists_prefix: "os_path_exists f (p @ r) \<Longrightarrow> os_path_exists f p"
  by (cases "r = []")
     (auto simp add: os_path_exists_def resolve_def walk_append split: option.splits)

lemma exists_sub: "sub_tree f g \<Longrightarrow> os_path_exists f p \<Longrightarrow> os_path_exists g p"
  by (auto simp add: os_path_exists_def resolve_def dest: walk_sub)



lemma rmtree_cases:
  obtains (same) "shutil_rmtree_ignore_errors r f = f"
  | (removed) d es where "lresolve f r = Some d" "entry_at f d = Some (Dir es)"
      "shutil_rmtree_ignore_errors r f = remove_entry d f"
proof (cases "lresolve f r")
  case None
  then show ?thesis by (intro same) (simp add: shutil_rmtree_ignore_errors_def)
next
  case (Some d)
  show ?thesis
  proof (cases "\<exists>es. entry_at f d = Some (Dir es)")
    case True
    then obtain es where "entry_at f d = Some (Dir es)" by blast
    with Some show ?thesis
      by (intro removed [of d es]) (simp_all add: shutil_rmtree_ignore_errors_def)
  next
    case False
    with Some show ?thesis
      by (intro same)
         (auto simp add: shutil_rmtree_ignore_errors_def split: option.splits node.splits)
  qed
qed

lemma sub_tree_rmtree: "sub_tree (shutil_rmtree_ignore_errors r f) f"
  by (cases r f rule: rmtree_cases) (simp_all add: sub_tree_remove)

lemma exists_rmtree_back:
  "os_path_exists (shutil_rmtree_ignore_errors r f) p \<Longrightarrow> os_path_exists f p"
  using sub_tree_rmtree by (rule exists_sub)

section \<open>Facts about removing a directory\<close>








section \<open>Evaluating the sample project\<close>

lemmas ex_defs = v39_def v311_def host_ex_def host_win_def venv_ex_def venv_at_def config_ex_def
  usr_tree_def redirect_env_def materialized_env_def fs_ex_def fs_linked_def venv_outer_def
  fs_nested_def

lemmas inspect_defs = spec_inspect_def os_path_exists_def resolve_def MAXSYMLINKS_def
  get_envpython_def activate_path_def os_path_dirname_def os_path_join_def

lemma shape_ex:
  "spec_inspect (venv_ex ''py39'' v39) (fs_ex []) = Absent"
  "spec_inspect (venv_ex ''py39'' v39) (fs_ex [redirect_env ''py39'']) = Redirect"
  "spec_inspect (venv_ex ''py39'' v39) (fs_ex [materialized_env ''py39'']) = Materialized"
  by (simp_all add: ex_defs inspect_defs)


lemmas fsop_defs = make_fake_env_def rm_venv_def shutil_rmtree_ignore_errors_def lresolve_def
  os_makedirs.simps os_mkdir_def os_symlink_def create_entry_def

lemma make_fake_env_ex:
  "make_fake_env host_ex (venv_ex ''py311'' v311) \<lparr>fs = fs_ex [], written = []\<rparr>
     = (Inr Handled, \<lparr>fs = fs_ex [redirect_env ''py311''], written = []\<rparr>)"
  by (simp add: ex_defs inspect_defs fsop_defs)

lemma make_fake_env_ex2:
  "make_fake_env host_ex (venv_ex ''py39'' v39) \<lparr>fs = fs_ex [materialized_env ''py39''], written = []\<rparr>
     = (Inr Handled, \<lparr>fs = fs_ex [redirect_env ''py39''], written = []\<rparr>)"
  by (simp add: ex_defs inspect_defs fsop_defs)


lemma ex_sel:
  "current_env (option (config_ex ce pd rc)) = ce"
  "print_deps_to (option (config_ex ce pd rc)) = pd"
  "print_deps_only (option (config_ex ce pd rc)) = False"
  "recreate (option (config_ex ce pd rc)) = rc"
  "python_info_version_info (envconfig (venv_ex name ver)) = Some ver"
  "resolved_dependencies (venv_ex name ver) = [''pytest'', ''six>=1.0'']"
  "sys_version_info host_ex = v39"
  "slice2 v39 = (3, 9)"
  "slice2 v311 = (3, 11)"
  by (simp_all add: ex_defs slice2_def)

section \<open>The compatibility guard\<close>

text \<open>
  The three predicates of the source say which shape the specification's inspection
  returns.
\<close>

lemma predicates_shape:
  "is_any_env v f = (spec_inspect v f \<noteq> Absent)"
  "is_current_env_link v f = (spec_inspect v f = Redirect)"
  "is_proper_venv v f = (spec_inspect v f = Materialized)"
  by (auto simp add: is_any_env_def is_current_env_link_def is_proper_venv_def
        python_activate_exists_def spec_inspect_def activate_path_def Let_def)

text \<open>
  Claim C1. \<open>unsupported_raise\<close> returns normally whenever \<^verbatim>\<open>--recreate\<close> is given. Without it,
  it raises exactly in two cases: a regular run (neither \<^verbatim>\<open>--current-env\<close> nor
  \<^verbatim>\<open>--print-deps-to\<close>) that finds a \<open>Redirect\<close> environment, and a \<^verbatim>\<open>--current-env\<close> run that
  finds a \<open>Materialized\<close> one. Every other combination of flags and shape passes.
\<close>

theorem unsupported_raise_compatible:
  "(unsupported_raise h c v f = Inr ()) =
     (recreate (option c) \<or>
      \<not> ((\<not> current_env (option c) \<and> print_deps_to (option c) = None \<and> spec_inspect v f = Redirect) \<or>
         (current_env (option c) \<and> spec_inspect v f = Materialized)))"
  by (auto simp add: unsupported_raise_def predicates_shape Let_def)

theorem unsupported_raise_compatible_witness:
  "unsupported_raise host_ex (config_ex False None False) (venv_ex ''py39'' v39)
     (fs_ex [redirect_env ''py39'']) \<noteq> Inr () \<and>
   unsupported_raise host_ex (config_ex False None True) (venv_ex ''py39'' v39)
     (fs_ex [redirect_env ''py39'']) = Inr () \<and>
   unsupported_raise host_ex (config_ex True None False) (venv_ex ''py39'' v39)
     (fs_ex [materialized_env ''py39'']) \<noteq> Inr () \<and>
   unsupported_raise host_ex (config_ex True None False) (venv_ex ''py39'' v39)
     (fs_ex [redirect_env ''py39'']) = Inr () \<and>
   unsupported_raise host_ex (config_ex False None False) (venv_ex ''py39'' v39)
     (fs_ex [materialized_env ''py39'']) = Inr () \<and>
   unsupported_raise host_ex (config_ex False None False) (venv_ex ''py39'' v39)
     (fs_ex []) = Inr ()"
  by (simp add: unsupported_raise_compatible shape_ex) (simp add: config_ex_def)

section \<open>Inspecting and destroying an environment\<close>

text \<open>
  Claim C4. The inspection of the source is the pair of the two existence checks and
  nothing else; the specification's shape is \<open>Absent\<close> exactly when \<open>is_any_env\<close> is false,
  \<open>Redirect\<close> exactly when \<open>is_current_env_link\<close> holds and \<open>Materialized\<close> exactly when
  \<open>is_proper_venv\<close> holds; a missing parent directory of the interpreter path gives
  \<open>Absent\<close>. The inspecting functions return booleans only, the file system is an argument
  they do not return.
\<close>

theorem inspect_two_checks:
  "python_activate_exists v f =
     (os_path_exists f (get_envpython v), os_path_exists f (activate_path v)) \<and>
   (spec_inspect v f = Absent) = (\<not> is_any_env v f) \<and>
   (spec_inspect v f = Redirect) = is_current_env_link v f \<and>
   (spec_inspect v f = Materialized) = is_proper_venv v f \<and>
   (\<not> os_path_exists f (os_path_dirname (get_envpython v)) \<longrightarrow> spec_inspect v f = Absent)"
proof -
  have "spec_inspect v f = Absent"
    if h: "\<not> os_path_exists f (os_path_dirname (get_envpython v))"
  proof -
    from h have ne: "get_envpython v \<noteq> []"
      by (auto simp add: os_path_dirname_def os_path_exists_def resolve_def)
    then have "get_envpython v = butlast (get_envpython v) @ [last (get_envpython v)]"
      by simp
    then have "os_path_exists f (get_envpython v) \<Longrightarrow> os_path_exists f (butlast (get_envpython v))"
      using exists_prefix [of f "butlast (get_envpython v)" "[last (get_envpython v)]"] by simp
    with h show ?thesis
      by (auto simp add: spec_inspect_def os_path_dirname_def)
  qed
  then show ?thesis
    by (auto simp add: predicates_shape)
       (simp_all add: python_activate_exists_def activate_path_def Let_def)
qed

theorem inspect_two_checks_witness:
  "\<not> os_path_exists (fs_ex []) (os_path_dirname (get_envpython (venv_ex ''py39'' v39))) \<and>
   spec_inspect (venv_ex ''py39'' v39) (fs_ex []) = Absent \<and>
   \<not> is_any_env (venv_ex ''py39'' v39) (fs_ex []) \<and>
   is_current_env_link (venv_ex ''py39'' v39) (fs_ex [redirect_env ''py39'']) \<and>
   is_proper_venv (venv_ex ''py39'' v39) (fs_ex [materialized_env ''py39''])"
proof -
  have h: "\<not> os_path_exists (fs_ex []) (os_path_dirname (get_envpython (venv_ex ''py39'' v39)))"
    by (simp add: ex_defs inspect_defs)
  show ?thesis
    using h inspect_two_checks [of "venv_ex ''py39'' v39" "fs_ex []"]
      inspect_two_checks [of "venv_ex ''py39'' v39" "fs_ex [redirect_env ''py39'']"]
      inspect_two_checks [of "venv_ex ''py39'' v39" "fs_ex [materialized_env ''py39'']"]
    by (simp add: shape_ex)
qed




section \<open>Provisioning\<close>

text \<open>
  Claim C5. When \<^verbatim>\<open>--current-env\<close> is given (and \<^verbatim>\<open>--print-deps-to\<close> is not, or no
  environment exists yet) and the requested interpreter differs from the running one in
  major or minor version, \<open>tox_testenv_create\<close> raises \<open>InterpreterMismatch\<close> with both
  versions and leaves the file system and the sinks as they were.
\<close>

theorem create_version_mismatch:
  assumes "current_env (option c)"
    and "print_deps_to (option c) = None \<or> \<not> is_any_env v (fs w)"
    and "python_info_version_info (envconfig v) = Some requested"
    and "slice2 requested \<noteq> slice2 (sys_version_info h)"
  shows "tox_testenv_create h c v w = (Inl (InterpreterMismatch (sys_version_info h) requested), w)"
  using assms by (auto simp add: tox_testenv_create_def Let_def)

theorem create_version_mismatch_witness:
  "current_env (option (config_ex True None False)) \<and>
   spec_inspect (venv_ex ''py311'' v311) (fs_ex []) = Absent \<and>
   slice2 v311 = (3, 11) \<and> slice2 (sys_version_info host_ex) = (3, 9) \<and>
   tox_testenv_create host_ex (config_ex True None False) (venv_ex ''py311'' v311)
       \<lparr>fs = fs_ex [], written = []\<rparr>
     = (Inl (InterpreterMismatch v39 v311), \<lparr>fs = fs_ex [], written = []\<rparr>)"
proof -
  have a: "current_env (option (config_ex True None False))"
    and b: "print_deps_to (option (config_ex True None False)) = None
            \<or> \<not> is_any_env (venv_ex ''py311'' v311) (fs \<lparr>fs = fs_ex [], written = []\<rparr>)"
    and c: "python_info_version_info (envconfig (venv_ex ''py311'' v311)) = Some v311"
    and d: "slice2 v311 \<noteq> slice2 (sys_version_info host_ex)"
    by (simp_all add: ex_defs slice2_def)
  have e: "spec_inspect (venv_ex ''py311'' v311) (fs_ex []) = Absent"
    by (simp add: ex_defs inspect_defs)
  show ?thesis
    using create_version_mismatch [OF a b c d] a e
    by (simp add: ex_sel)
qed

section \<open>The test-run hook\<close>

lemma join_sep_lines:
  "ds \<noteq> [] \<Longrightarrow> join_sep sep ds @ sep = concat (map (\<lambda>d. d @ sep) ds)"
  by (induction sep ds rule: join_sep.induct) simp_all

text \<open>
  Claim C8. With \<^verbatim>\<open>--print-deps-to\<close> given and the guard passing, \<open>tox_runtest\<close> writes
  once to the sink: every resolved dependency followed by a newline, in the order of the
  resolver (a lone newline when there are none), and returns \<open>Handled\<close>; the file system
  is untouched.
\<close>

theorem runtest_prints_deps:
  assumes "print_deps_to (option c) = Some s"
    and "unsupported_raise h c v (fs w) = Inr ()"
  shows "tox_runtest h c v w =
           (Inr Handled,
            w\<lparr>written := written w @
                 [(s, if resolved_dependencies v = [] then [CHR 0x0A]
                      else concat (map (\<lambda>d. d @ [CHR 0x0A]) (resolved_dependencies v)))]\<rparr>)"
  using assms by (simp add: tox_runtest_def print_sep_newline_def join_sep_lines)

theorem runtest_prints_deps_witness:
  "print_deps_to (option (config_ex False (Some Stdout) False)) = Some Stdout \<and>
   unsupported_raise host_ex (config_ex False (Some Stdout) False) (venv_ex ''py39'' v39)
     (fs_ex [redirect_env ''py39'']) = Inr () \<and>
   tox_runtest host_ex (config_ex False (Some Stdout) False) (venv_ex ''py39'' v39)
       \<lparr>fs = fs_ex [redirect_env ''py39''], written = []\<rparr>
     = (Inr Handled,
        \<lparr>fs = fs_ex [redirect_env ''py39''],
         written = [(Stdout, ''pytest'' @ [CHR 0x0A] @ ''six>=1.0'' @ [CHR 0x0A])]\<rparr>)"
proof -
  have a: "print_deps_to (option (config_ex False (Some Stdout) False)) = Some Stdout"
    by (simp add: config_ex_def)
  have b: "unsupported_raise host_ex (config_ex False (Some Stdout) False) (venv_ex ''py39'' v39)
     (fs \<lparr>fs = fs_ex [redirect_env ''py39''], written = []\<rparr>) = Inr ()"
    by (simp add: unsupported_raise_def config_ex_def)
  show ?thesis
    using runtest_prints_deps [OF a b] a b
    by (simp add: ex_sel)
qed

section \<open>Provisioning with a sink for the dependencies\<close>

text \<open>
  Claim C3, as stated, fails: with \<^verbatim>\<open>--print-deps-to\<close> alone, no environment on disk and a
  requested Python 3.11 under a running Python 3.9, \<open>tox_testenv_create\<close> makes the
  redirect and returns \<open>Handled\<close>; no \<open>InterpreterMismatch\<close> is raised. The source sets
  \<^verbatim>\<open>check_version\<close> from \<^verbatim>\<open>--current-env\<close> only (line 122, and the comment on line 134).
\<close>

theorem create_print_deps_counterexample:
  "print_deps_to (option (config_ex False (Some Stdout) False)) = Some Stdout \<and>
   \<not> current_env (option (config_ex False (Some Stdout) False)) \<and>
   spec_inspect (venv_ex ''py311'' v311) (fs_ex []) = Absent \<and>
   python_info_version_info (envconfig (venv_ex ''py311'' v311)) = Some v311 \<and>
   slice2 v311 \<noteq> slice2 (sys_version_info host_ex) \<and>
   tox_testenv_create host_ex (config_ex False (Some Stdout) False) (venv_ex ''py311'' v311)
       \<lparr>fs = fs_ex [], written = []\<rparr>
     = (Inr Handled, \<lparr>fs = fs_ex [redirect_env ''py311''], written = []\<rparr>)"
proof -
  have "spec_inspect (venv_ex ''py311'' v311) (fs_ex []) = Absent"
    by (simp add: ex_defs inspect_defs)
  moreover from this have
    "tox_testenv_create host_ex (config_ex False (Some Stdout) False) (venv_ex ''py311'' v311)
       \<lparr>fs = fs_ex [], written = []\<rparr>
     = (Inr Handled, \<lparr>fs = fs_ex [redirect_env ''py311''], written = []\<rparr>)"
    by (simp add: tox_testenv_create_def predicates_shape make_fake_env_ex ex_sel)
  ultimately show ?thesis
    by (simp add: ex_sel)
qed

text \<open>
  Claim C3, amended. With \<^verbatim>\<open>--print-deps-to\<close> given: when the shape is not \<open>Absent\<close> the
  hook returns \<open>Handled\<close> and changes nothing; when it is \<open>Absent\<close> and \<^verbatim>\<open>--current-env\<close>
  is not given, the hook runs the redirect creation of the current-env mode without
  comparing versions; when it is \<open>Absent\<close> and \<^verbatim>\<open>--current-env\<close> is given too, the
  version check comes first and the redirect is created only when it passes.
\<close>

theorem create_print_deps:
  assumes "print_deps_to (option c) \<noteq> None"
  shows "(spec_inspect v (fs w) \<noteq> Absent \<longrightarrow> tox_testenv_create h c v w = (Inr Handled, w)) \<and>
         (spec_inspect v (fs w) = Absent \<and> \<not> current_env (option c) \<longrightarrow>
            tox_testenv_create h c v w = make_fake_env h v w) \<and>
         (spec_inspect v (fs w) = Absent \<and> current_env (option c) \<longrightarrow>
            tox_testenv_create h c v w =
              (case python_info_version_info (envconfig v) of
                 None \<Rightarrow> (Inl (InterpreterNotFound (basepython (envconfig v))), w)
               | Some requested \<Rightarrow>
                   if slice2 requested \<noteq> slice2 (sys_version_info h)
                   then (Inl (InterpreterMismatch (sys_version_info h) requested), w)
                   else make_fake_env h v w))"
  using assms
  by (auto simp add: tox_testenv_create_def predicates_shape Let_def split: option.splits)

theorem create_print_deps_witness:
  "print_deps_to (option (config_ex False (Some Stdout) False)) \<noteq> None \<and>
   spec_inspect (venv_ex ''py311'' v311) (fs_ex [redirect_env ''py311'']) \<noteq> Absent \<and>
   spec_inspect (venv_ex ''py311'' v311) (fs_ex []) = Absent \<and>
   tox_testenv_create host_ex (config_ex False (Some Stdout) False) (venv_ex ''py311'' v311)
       \<lparr>fs = fs_ex [redirect_env ''py311''], written = []\<rparr>
     = (Inr Handled, \<lparr>fs = fs_ex [redirect_env ''py311''], written = []\<rparr>) \<and>
   tox_testenv_create host_ex (config_ex False (Some Stdout) False) (venv_ex ''py311'' v311)
       \<lparr>fs = fs_ex [], written = []\<rparr>
     = make_fake_env host_ex (venv_ex ''py311'' v311) \<lparr>fs = fs_ex [], written = []\<rparr> \<and>
   tox_testenv_create host_ex (config_ex True (Some Stdout) False) (venv_ex ''py311'' v311)
       \<lparr>fs = fs_ex [], written = []\<rparr>
     = (Inl (InterpreterMismatch v39 v311), \<lparr>fs = fs_ex [], written = []\<rparr>)"
proof -
  have a: "print_deps_to (option (config_ex ce (Some Stdout) False)) \<noteq> None" for ce
    by (simp add: config_ex_def)
  have b: "spec_inspect (venv_ex ''py311'' v311) (fs_ex [redirect_env ''py311'']) \<noteq> Absent"
    and c: "spec_inspect (venv_ex ''py311'' v311) (fs_ex []) = Absent"
    by (simp_all add: ex_defs inspect_defs)
  show ?thesis
    using a [of False] b c
      create_print_deps [OF a [of False], of "venv_ex ''py311'' v311"
        "\<lparr>fs = fs_ex [redirect_env ''py311''], written = []\<rparr>" host_ex]
      create_print_deps [OF a [of False], of "venv_ex ''py311'' v311"
        "\<lparr>fs = fs_ex [], written = []\<rparr>" host_ex]
      create_print_deps [OF a [of True], of "venv_ex ''py311'' v311"
        "\<lparr>fs = fs_ex [], written = []\<rparr>" host_ex]
    by (simp add: ex_sel)
qed

section \<open>Where the guard runs\<close>

text \<open>
  Claim C2, as stated, fails at the provisioning hook: \<open>tox_testenv_create\<close> does not call
  \<open>unsupported_raise\<close>. In a \<^verbatim>\<open>--current-env\<close> run without \<^verbatim>\<open>--recreate\<close> on a
  \<open>Materialized\<close> environment the guard raises, and yet the hook removes the environment
  and puts the redirect in its place.
\<close>

theorem guard_before_mutation_counterexample:
  "\<not> recreate (option (config_ex True None False)) \<and>
   unsupported_raise host_ex (config_ex True None False) (venv_ex ''py39'' v39)
       (fs_ex [materialized_env ''py39'']) = Inl (ConfigError CurrentEnvAfterRegular) \<and>
   tox_testenv_create host_ex (config_ex True None False) (venv_ex ''py39'' v39)
       \<lparr>fs = fs_ex [materialized_env ''py39''], written = []\<rparr>
     = (Inr Handled, \<lparr>fs = fs_ex [redirect_env ''py39''], written = []\<rparr>) \<and>
   fs_ex [redirect_env ''py39''] \<noteq> fs_ex [materialized_env ''py39'']"
proof -
  have m: "spec_inspect (venv_ex ''py39'' v39) (fs_ex [materialized_env ''py39'']) = Materialized"
    by (rule shape_ex)
  have "unsupported_raise host_ex (config_ex True None False) (venv_ex ''py39'' v39)
       (fs_ex [materialized_env ''py39'']) = Inl (ConfigError CurrentEnvAfterRegular)"
    using m by (simp add: unsupported_raise_def predicates_shape ex_sel)
  moreover have "tox_testenv_create host_ex (config_ex True None False) (venv_ex ''py39'' v39)
       \<lparr>fs = fs_ex [materialized_env ''py39''], written = []\<rparr>
     = (Inr Handled, \<lparr>fs = fs_ex [redirect_env ''py39''], written = []\<rparr>)"
    by (simp add: tox_testenv_create_def make_fake_env_ex2 ex_sel)
  moreover have "fs_ex [redirect_env ''py39''] \<noteq> fs_ex [materialized_env ''py39'']"
    by (simp add: ex_defs)
  ultimately show ?thesis by (simp add: ex_sel)
qed

text \<open>
  Claim C2, amended. In the package hook, the dependency-install hook and the test-run
  hook the guard runs first: when it raises, the hook raises the same error and leaves
  the world as it was (nothing is written, nothing is reported as handled). None of the
  three hooks ever changes the file system. The provisioning hook is not part of this:
  it does not run the guard.
\<close>

theorem guard_before_substitution:
  "(unsupported_raise h c v (fs w) = Inl e \<longrightarrow>
      tox_package h c v w = (Inl e, w) \<and>
      tox_testenv_install_deps h c v w = (Inl e, w) \<and>
      tox_runtest h c v w = (Inl e, w)) \<and>
   fs (snd (tox_package h c v w)) = fs w \<and>
   fs (snd (tox_testenv_install_deps h c v w)) = fs w \<and>
   fs (snd (tox_runtest h c v w)) = fs w"
  by (simp add: tox_package_def tox_testenv_install_deps_def tox_runtest_def
        print_sep_newline_def split: sum.splits option.splits)

theorem guard_before_substitution_witness:
  "unsupported_raise host_ex (config_ex True (Some Stdout) False) (venv_ex ''py39'' v39)
       (fs \<lparr>fs = fs_ex [materialized_env ''py39''], written = []\<rparr>)
     = Inl (ConfigError CurrentEnvAfterRegular) \<and>
   tox_package host_ex (config_ex True (Some Stdout) False) (venv_ex ''py39'' v39)
       \<lparr>fs = fs_ex [materialized_env ''py39''], written = []\<rparr>
     = (Inl (ConfigError CurrentEnvAfterRegular), \<lparr>fs = fs_ex [materialized_env ''py39''], written = []\<rparr>) \<and>
   tox_testenv_install_deps host_ex (config_ex True (Some Stdout) False) (venv_ex ''py39'' v39)
       \<lparr>fs = fs_ex [materialized_env ''py39''], written = []\<rparr>
     = (Inl (ConfigError CurrentEnvAfterRegular), \<lparr>fs = fs_ex [materialized_env ''py39''], written = []\<rparr>) \<and>
   tox_runtest host_ex (config_ex True (Some Stdout) False) (venv_ex ''py39'' v39)
       \<lparr>fs = fs_ex [materialized_env ''py39''], written = []\<rparr>
     = (Inl (ConfigError CurrentEnvAfterRegular), \<lparr>fs = fs_ex [materialized_env ''py39''], written = []\<rparr>)"
proof -
  have m: "spec_inspect (venv_ex ''py39'' v39) (fs_ex [materialized_env ''py39'']) = Materialized"
    by (rule shape_ex)
  have g: "unsupported_raise host_ex (config_ex True (Some Stdout) False) (venv_ex ''py39'' v39)
       (fs \<lparr>fs = fs_ex [materialized_env ''py39''], written = []\<rparr>)
     = Inl (ConfigError CurrentEnvAfterRegular)"
    using m by (simp add: unsupported_raise_def predicates_shape ex_sel)
  show ?thesis
    using g guard_before_substitution [of host_ex "config_ex True (Some Stdout) False"
        "venv_ex ''py39'' v39" "\<lparr>fs = fs_ex [materialized_env ''py39''], written = []\<rparr>"
        "ConfigError CurrentEnvAfterRegular"]
    by simp
qed

section \<open>Both flags together\<close>

text \<open>
  Claim C10, as stated, fails in its last part: with \<^verbatim>\<open>--current-env\<close> and
  \<^verbatim>\<open>--print-deps-to\<close> together, an existing \<open>Redirect\<close> environment and a requested Python
  3.11 under a running Python 3.9, the provisioning hook returns \<open>Handled\<close> without
  comparing versions, where \<^verbatim>\<open>--current-env\<close> alone raises \<open>InterpreterMismatch\<close>: the
  early return of line 126 comes before the check of line 133.
\<close>

theorem combined_flags_counterexample:
  "current_env (option (config_ex True (Some Stdout) False)) \<and>
   print_deps_to (option (config_ex True (Some Stdout) False)) = Some Stdout \<and>
   python_info_version_info (envconfig (venv_ex ''py311'' v311)) = Some v311 \<and>
   slice2 v311 \<noteq> slice2 (sys_version_info host_ex) \<and>
   spec_inspect (venv_ex ''py311'' v311) (fs_ex [redirect_env ''py311'']) = Redirect \<and>
   tox_testenv_create host_ex (config_ex True (Some Stdout) False) (venv_ex ''py311'' v311)
       \<lparr>fs = fs_ex [redirect_env ''py311''], written = []\<rparr>
     = (Inr Handled, \<lparr>fs = fs_ex [redirect_env ''py311''], written = []\<rparr>) \<and>
   tox_testenv_create host_ex (config_ex True None False) (venv_ex ''py311'' v311)
       \<lparr>fs = fs_ex [redirect_env ''py311''], written = []\<rparr>
     = (Inl (InterpreterMismatch v39 v311), \<lparr>fs = fs_ex [redirect_env ''py311''], written = []\<rparr>)"
proof -
  have r: "spec_inspect (venv_ex ''py311'' v311) (fs_ex [redirect_env ''py311'']) = Redirect"
    by (simp add: ex_defs inspect_defs)
  then show ?thesis
    by (simp add: tox_testenv_create_def predicates_shape ex_sel)
qed

text \<open>
  Claim C10, amended. With \<^verbatim>\<open>--current-env\<close> and \<^verbatim>\<open>--print-deps-to\<close> together (and
  without the deprecated \<^verbatim>\<open>--print-deps-only\<close>): \<open>tox_configure\<close> raises nothing and sets
  \<^verbatim>\<open>skipsdist\<close> and \<^verbatim>\<open>whitelist_externals\<close>; the guard raises exactly on a \<open>Materialized\<close>
  environment without \<^verbatim>\<open>--recreate\<close>; when the guard passes, the dependency-install hook
  returns \<open>Handled\<close> and the test-run hook prints the dependencies to the sink; the
  provisioning hook returns \<open>Handled\<close> untouched when any environment exists, and checks
  the version before creating the redirect when none exists. For every configuration,
  \<open>tox_configure\<close> raises exactly when \<^verbatim>\<open>--print-deps-only\<close> and \<^verbatim>\<open>--print-deps-to\<close> are
  given together.
\<close>

theorem combined_flags:
  assumes "current_env (option c)"
    and "print_deps_to (option c) = Some s"
    and "\<not> print_deps_only (option c)"
  shows "snd (tox_configure c) =
           Inr (c\<lparr>skipsdist := True,
                  envconfigs := map (\<lambda>(name, ec). (name, ec\<lparr>whitelist_externals := ''*''\<rparr>))
                                    (envconfigs c)\<rparr>) \<and>
         (unsupported_raise h c v (fs w) = Inr ()) =
           (recreate (option c) \<or> spec_inspect v (fs w) \<noteq> Materialized) \<and>
         (unsupported_raise h c v (fs w) = Inr () \<longrightarrow>
            tox_testenv_install_deps h c v w = (Inr Handled, w) \<and>
            tox_runtest h c v w = (Inr Handled, print_sep_newline (resolved_dependencies v) s w)) \<and>
         (spec_inspect v (fs w) \<noteq> Absent \<longrightarrow> tox_testenv_create h c v w = (Inr Handled, w)) \<and>
         (spec_inspect v (fs w) = Absent \<longrightarrow>
            tox_testenv_create h c v w =
              (case python_info_version_info (envconfig v) of
                 None \<Rightarrow> (Inl (InterpreterNotFound (basepython (envconfig v))), w)
               | Some requested \<Rightarrow>
                   if slice2 requested \<noteq> slice2 (sys_version_info h)
                   then (Inl (InterpreterMismatch (sys_version_info h) requested), w)
                   else make_fake_env h v w)) \<and>
         ((\<exists>e. snd (tox_configure c') = Inl e) =
            (print_deps_only (option c') \<and> print_deps_to (option c') \<noteq> None))"
proof (intro conjI)
  show "snd (tox_configure c) =
           Inr (c\<lparr>skipsdist := True,
                  envconfigs := map (\<lambda>(name, ec). (name, ec\<lparr>whitelist_externals := ''*''\<rparr>))
                                    (envconfigs c)\<rparr>)"
    using assms by (simp add: tox_configure_def Let_def)
next
  show "(unsupported_raise h c v (fs w) = Inr ()) =
           (recreate (option c) \<or> spec_inspect v (fs w) \<noteq> Materialized)"
    using assms by (simp add: unsupported_raise_def predicates_shape Let_def)
next
  show "unsupported_raise h c v (fs w) = Inr () \<longrightarrow>
            tox_testenv_install_deps h c v w = (Inr Handled, w) \<and>
            tox_runtest h c v w = (Inr Handled, print_sep_newline (resolved_dependencies v) s w)"
    using assms by (simp add: tox_testenv_install_deps_def tox_runtest_def)
next
  show "spec_inspect v (fs w) \<noteq> Absent \<longrightarrow> tox_testenv_create h c v w = (Inr Handled, w)"
    using assms by (simp add: tox_testenv_create_def predicates_shape)
next
  show "spec_inspect v (fs w) = Absent \<longrightarrow>
            tox_testenv_create h c v w =
              (case python_info_version_info (envconfig v) of
                 None \<Rightarrow> (Inl (InterpreterNotFound (basepython (envconfig v))), w)
               | Some requested \<Rightarrow>
                   if slice2 requested \<noteq> slice2 (sys_version_info h)
                   then (Inl (InterpreterMismatch (sys_version_info h) requested), w)
                   else make_fake_env h v w)"
    using assms
    by (auto simp add: tox_testenv_create_def predicates_shape Let_def split: option.splits)
next
  show "(\<exists>e. snd (tox_configure c') = Inl e) =
            (print_deps_only (option c') \<and> print_deps_to (option c') \<noteq> None)"
    by (auto simp add: tox_configure_def Let_def split: if_splits)
qed

theorem combined_flags_witness:
  "current_env (option (config_ex True (Some Stdout) False)) \<and>
   print_deps_to (option (config_ex True (Some Stdout) False)) = Some Stdout \<and>
   \<not> print_deps_only (option (config_ex True (Some Stdout) False)) \<and>
   snd (tox_configure (config_ex True (Some Stdout) False))
     = Inr ((config_ex True (Some Stdout) False)\<lparr>skipsdist := True\<rparr>) \<and>
   unsupported_raise host_ex (config_ex True (Some Stdout) False) (venv_ex ''py311'' v311)
     (fs_ex [redirect_env ''py311'']) = Inr () \<and>
   unsupported_raise host_ex (config_ex True (Some Stdout) False) (venv_ex ''py311'' v311)
     (fs_ex [materialized_env ''py311'']) \<noteq> Inr () \<and>
   tox_testenv_install_deps host_ex (config_ex True (Some Stdout) False) (venv_ex ''py311'' v311)
       \<lparr>fs = fs_ex [redirect_env ''py311''], written = []\<rparr>
     = (Inr Handled, \<lparr>fs = fs_ex [redirect_env ''py311''], written = []\<rparr>) \<and>
   tox_testenv_create host_ex (config_ex True (Some Stdout) False) (venv_ex ''py311'' v311)
       \<lparr>fs = fs_ex [redirect_env ''py311''], written = []\<rparr>
     = (Inr Handled, \<lparr>fs = fs_ex [redirect_env ''py311''], written = []\<rparr>) \<and>
   tox_testenv_create host_ex (config_ex True (Some Stdout) False) (venv_ex ''py311'' v311)
       \<lparr>fs = fs_ex [], written = []\<rparr>
     = (Inl (InterpreterMismatch v39 v311), \<lparr>fs = fs_ex [], written = []\<rparr>)"
proof -
  have a: "current_env (option (config_ex True (Some Stdout) False))"
    and b: "print_deps_to (option (config_ex True (Some Stdout) False)) = Some Stdout"
    and c: "\<not> print_deps_only (option (config_ex True (Some Stdout) False))"
    by (simp_all add: ex_sel)
  have s: "spec_inspect (venv_ex ''py311'' v311) (fs_ex [redirect_env ''py311'']) = Redirect"
    "spec_inspect (venv_ex ''py311'' v311) (fs_ex [materialized_env ''py311'']) = Materialized"
    "spec_inspect (venv_ex ''py311'' v311) (fs_ex []) = Absent"
    by (simp_all add: ex_defs inspect_defs)
  have e: "envconfigs (config_ex True (Some Stdout) False) = []"
    by (simp add: config_ex_def)
  show ?thesis
    using a b c
      combined_flags [OF a b c, of host_ex "venv_ex ''py311'' v311"
        "\<lparr>fs = fs_ex [redirect_env ''py311''], written = []\<rparr>"]
      combined_flags [OF a b c, of host_ex "venv_ex ''py311'' v311"
        "\<lparr>fs = fs_ex [materialized_env ''py311''], written = []\<rparr>"]
      combined_flags [OF a b c, of host_ex "venv_ex ''py311'' v311"
        "\<lparr>fs = fs_ex [], written = []\<rparr>"]
    by (simp add: s e ex_sel)
qed

section \<open>Cleanup at the end of the session\<close>

lemma sub_tree_rm_venv: "sub_tree (rm_venv u f) f"
  unfolding rm_venv_def Let_def by (rule sub_tree_rmtree)














lemma exists_rm_venv_back: "os_path_exists (rm_venv u f) p \<Longrightarrow> os_path_exists f p"
  using sub_tree_rm_venv by (rule exists_sub)









lemma cleanup_ex:
  "tox_cleanup [venv_ex ''py39'' v39, venv_ex ''py311'' v311]
     (fs_ex [redirect_env ''py39'', materialized_env ''py311''])
   = fs_ex [materialized_env ''py311'']"
  by (simp add: ex_defs inspect_defs predicates_shape fsop_defs)


section \<open>Creating the redirect twice\<close>
































end
